theory Spec2Isabelle
  imports Main
begin

section \<open>Go strings\<close>

text \<open>
  A Go string is a sequence of bytes; it is modelled as \<open>string\<close> (a list of 8-bit
  characters). Byte comparisons of the source (\<open>'a' <= c\<close>) are comparisons of the
  numeric values of the characters.
\<close>

definition byte :: "char \<Rightarrow> nat" where
  "byte c = of_char c"

definition is_lower :: "char \<Rightarrow> bool" where
  "is_lower c = (97 \<le> byte c \<and> byte c \<le> 122)"

definition is_upper :: "char \<Rightarrow> bool" where
  "is_upper c = (65 \<le> byte c \<and> byte c \<le> 90)"

definition is_digit :: "char \<Rightarrow> bool" where
  "is_digit c = (48 \<le> byte c \<and> byte c \<le> 57)"

definition is_letter :: "char \<Rightarrow> bool" where
  "is_letter c = (is_lower c \<or> is_upper c)"

text \<open>\<open>strings.HasPrefix\<close> and \<open>strings.HasSuffix\<close>.\<close>

definition HasPrefix :: "string \<Rightarrow> string \<Rightarrow> bool" where
  "HasPrefix s p = (take (length p) s = p)"

definition HasSuffix :: "string \<Rightarrow> string \<Rightarrow> bool" where
  "HasSuffix s p = (length p \<le> length s \<and> drop (length s - length p) s = p)"

text \<open>\<open>strings.TrimPrefix\<close> and \<open>strings.TrimSuffix\<close>.\<close>

definition TrimPrefix :: "string \<Rightarrow> string \<Rightarrow> string" where
  "TrimPrefix s p = (if HasPrefix s p then drop (length p) s else s)"

definition TrimSuffix :: "string \<Rightarrow> string \<Rightarrow> string" where
  "TrimSuffix s p = (if HasSuffix s p then take (length s - length p) s else s)"

text \<open>
  \<open>strings.Index\<close>: the position of the first occurrence of a substring, \<open>None\<close> for
  Go's \<open>-1\<close>; \<open>strings.Contains\<close> is \<open>Index >= 0\<close>.
\<close>

fun strings_Index :: "string \<Rightarrow> string \<Rightarrow> nat option" where
  "strings_Index [] sub = (if sub = [] then Some 0 else None)"
| "strings_Index (c # cs) sub =
     (if HasPrefix (c # cs) sub then Some 0
      else (case strings_Index cs sub of None \<Rightarrow> None | Some i \<Rightarrow> Some (Suc i)))"

definition strings_Contains :: "string \<Rightarrow> string \<Rightarrow> bool" where
  "strings_Contains s sub = (strings_Index s sub \<noteq> None)"

text \<open>\<open>strings.LastIndex\<close> for a one-byte separator.\<close>

definition LastIndexByte :: "string \<Rightarrow> char \<Rightarrow> nat option" where
  "LastIndexByte s c =
     (if c \<in> set s then Some (length s - 1 - length (takeWhile (\<lambda>x. x \<noteq> c) (rev s)))
      else None)"

text \<open>\<open>strings.Cut\<close> for a one-byte separator: the text before and after its first occurrence.\<close>

definition Cut_before :: "string \<Rightarrow> char \<Rightarrow> string" where
  "Cut_before s c = takeWhile (\<lambda>x. x \<noteq> c) s"

definition Cut_after :: "string \<Rightarrow> char \<Rightarrow> string" where
  "Cut_after s c = drop 1 (dropWhile (\<lambda>x. x \<noteq> c) s)"

text \<open>
  \<open>strings.ToLower\<close> on ASCII text. It is applied to URL schemes only, and a scheme
  accepted by \<open>getScheme\<close> holds ASCII letters, digits, \<open>+\<close>, \<open>-\<close> and \<open>.\<close> only.
\<close>

definition lower_byte :: "char \<Rightarrow> char" where
  "lower_byte c = (if is_upper c then char_of (byte c + 32) else c)"

definition ToLower :: "string \<Rightarrow> string" where
  "ToLower s = map lower_byte s"

section \<open>The standard library's URL parser (net/url)\<close>

text \<open>
  \<open>ParseTarget\<close> delegates to \<open>url.Parse\<close>, and the detector reads \<open>Hostname()\<close> and
  \<open>Port()\<close> of the parsed URL. These are functions of the Go standard library; they are
  written out here after the library (Go 1.21), for \<open>viaRequest = false\<close>, which is how
  \<open>url.Parse\<close> calls \<open>parse\<close>. The fields \<open>RawPath\<close> and \<open>RawFragment\<close> (encoding hints)
  are left out.
\<close>

datatype url_error =
    InvalidControlCharacter
  | MissingProtocolScheme
  | FirstPathSegmentColon
  | EscapeError string
  | InvalidHostError string
  | MissingBracketInHost
  | InvalidPort string
  | InvalidUserinfo

record URL =
  Scheme :: string
  Opaque :: string
  Userinfo :: "(string \<times> string option) option"
  Host :: string
  Path :: string
  OmitHost :: bool
  ForceQuery :: bool
  RawQuery :: string
  Fragment :: string

definition empty_URL :: URL where
  "empty_URL = \<lparr>Scheme = '''', Opaque = '''', Userinfo = None, Host = '''', Path = '''',
     OmitHost = False, ForceQuery = False, RawQuery = '''', Fragment = ''''\<rparr>"

definition stringContainsCTLByte :: "string \<Rightarrow> bool" where
  "stringContainsCTLByte s = (\<exists>b \<in> set s. byte b < 32 \<or> byte b = 127)"

text \<open>
  \<open>getScheme\<close>: the loop over the bytes of \<open>rawURL\<close>; \<open>pre\<close> is \<open>rawURL[:i]\<close>, so
  \<open>i == 0\<close> is \<open>pre = []\<close>.
\<close>

fun getScheme_loop :: "string \<Rightarrow> string \<Rightarrow> string \<Rightarrow> url_error + (string \<times> string)" where
  "getScheme_loop rawURL pre [] = Inr ('''', rawURL)"
| "getScheme_loop rawURL pre (c # cs) =
     (if is_letter c then getScheme_loop rawURL (pre @ [c]) cs
      else if is_digit c \<or> c = CHR ''+'' \<or> c = CHR ''-'' \<or> c = CHR ''.'' then
        (if pre = [] then Inr ('''', rawURL) else getScheme_loop rawURL (pre @ [c]) cs)
      else if c = CHR '':'' then
        (if pre = [] then Inl MissingProtocolScheme else Inr (pre, cs))
      else Inr ('''', rawURL))"

definition getScheme :: "string \<Rightarrow> url_error + (string \<times> string)" where
  "getScheme rawURL = getScheme_loop rawURL [] rawURL"

datatype encoding =
  encodePath | encodePathSegment | encodeHost | encodeZone | encodeUserPassword
  | encodeQueryComponent | encodeFragment

definition ishex :: "char \<Rightarrow> bool" where
  "ishex c = (is_digit c \<or> (97 \<le> byte c \<and> byte c \<le> 102) \<or> (65 \<le> byte c \<and> byte c \<le> 70))"

definition unhex :: "char \<Rightarrow> nat" where
  "unhex c =
     (if is_digit c then byte c - 48
      else if 97 \<le> byte c \<and> byte c \<le> 102 then byte c - 97 + 10
      else if 65 \<le> byte c \<and> byte c \<le> 70 then byte c - 65 + 10
      else 0)"

text \<open>\<open>shouldEscape(c, encodeHost)\<close>, the only mode in which \<open>unescape\<close> consults it.\<close>

definition shouldEscape_Host :: "char \<Rightarrow> bool" where
  "shouldEscape_Host c =
     (\<not> (is_letter c \<or> is_digit c
         \<or> c \<in> set ''!$&()*+,;=:[]<>''
         \<or> c = CHR 0x27 \<or> c = CHR 0x22
         \<or> c \<in> set ''-_.~''))"

text \<open>
  \<open>unescape\<close>. The source checks the whole string first and decodes it in a second
  pass; one pass that stops at the first malformed byte returns the same error or the
  same decoded string. \<open>+\<close> becomes a space in \<open>encodeQueryComponent\<close> only.
\<close>

fun unescape :: "string \<Rightarrow> encoding \<Rightarrow> url_error + string" where
  "unescape [] mode = Inr []"
| "unescape (c # cs) mode =
     (if c = CHR ''%'' then
        (case cs of
           a # b # rest \<Rightarrow>
             if \<not> ishex a \<or> \<not> ishex b then Inl (EscapeError (take 3 (c # cs)))
             else if mode = encodeHost \<and> unhex a < 8 \<and> [c, a, b] \<noteq> ''%25''
               then Inl (EscapeError [c, a, b])
             else if mode = encodeZone \<and> [c, a, b] \<noteq> ''%25''
                     \<and> 16 * unhex a + unhex b \<noteq> 32
                     \<and> shouldEscape_Host (char_of (16 * unhex a + unhex b))
               then Inl (EscapeError [c, a, b])
             else (case unescape rest mode of
                     Inl e \<Rightarrow> Inl e
                   | Inr t \<Rightarrow> Inr (char_of (16 * unhex a + unhex b) # t))
         | _ \<Rightarrow> Inl (EscapeError (take 3 (c # cs))))
      else if c = CHR ''+'' then
        (case unescape cs mode of
           Inl e \<Rightarrow> Inl e
         | Inr t \<Rightarrow> Inr ((if mode = encodeQueryComponent then CHR '' '' else c) # t))
      else if (mode = encodeHost \<or> mode = encodeZone) \<and> byte c < 128 \<and> shouldEscape_Host c
        then Inl (InvalidHostError [c])
      else (case unescape cs mode of Inl e \<Rightarrow> Inl e | Inr t \<Rightarrow> Inr (c # t)))"

definition validOptionalPort :: "string \<Rightarrow> bool" where
  "validOptionalPort port =
     (case port of
        [] \<Rightarrow> True
      | c # ds \<Rightarrow> c = CHR '':'' \<and> (\<forall>b \<in> set ds. is_digit b))"

definition validUserinfo :: "string \<Rightarrow> bool" where
  "validUserinfo s =
     (\<forall>r \<in> set s. is_letter r \<or> is_digit r \<or> r \<in> set ''-._:~!$&()*+,;=%@'' \<or> r = CHR 0x27)"

definition parseHost :: "string \<Rightarrow> url_error + string" where
  "parseHost host =
     (if HasPrefix host ''['' then
        (case LastIndexByte host CHR '']'' of
           None \<Rightarrow> Inl MissingBracketInHost
         | Some i \<Rightarrow>
             if \<not> validOptionalPort (drop (i + 1) host) then Inl (InvalidPort (drop (i + 1) host))
             else (case strings_Index (take i host) ''%25'' of
                     Some zone \<Rightarrow>
                       (case unescape (take zone host) encodeHost of
                          Inl e \<Rightarrow> Inl e
                        | Inr host1 \<Rightarrow>
                            (case unescape (drop zone (take i host)) encodeZone of
                               Inl e \<Rightarrow> Inl e
                             | Inr host2 \<Rightarrow>
                                 (case unescape (drop i host) encodeHost of
                                    Inl e \<Rightarrow> Inl e
                                  | Inr host3 \<Rightarrow> Inr (host1 @ host2 @ host3))))
                   | None \<Rightarrow> unescape host encodeHost))
      else
        (case LastIndexByte host CHR '':'' of
           Some i \<Rightarrow>
             if \<not> validOptionalPort (drop i host) then Inl (InvalidPort (drop i host))
             else unescape host encodeHost
         | None \<Rightarrow> unescape host encodeHost))"

definition parseAuthority ::
  "string \<Rightarrow> url_error + ((string \<times> string option) option \<times> string)" where
  "parseAuthority authority =
     (case LastIndexByte authority CHR ''@'' of
        None \<Rightarrow> (case parseHost authority of Inl e \<Rightarrow> Inl e | Inr host \<Rightarrow> Inr (None, host))
      | Some i \<Rightarrow>
          (case parseHost (drop (i + 1) authority) of
             Inl e \<Rightarrow> Inl e
           | Inr host \<Rightarrow>
               (let userinfo = take i authority in
                if \<not> validUserinfo userinfo then Inl InvalidUserinfo
                else if CHR '':'' \<notin> set userinfo then
                  (case unescape userinfo encodeUserPassword of
                     Inl e \<Rightarrow> Inl e
                   | Inr u \<Rightarrow> Inr (Some (u, None), host))
                else
                  (case unescape (Cut_before userinfo CHR '':'') encodeUserPassword of
                     Inl e \<Rightarrow> Inl e
                   | Inr username \<Rightarrow>
                       (case unescape (Cut_after userinfo CHR '':'') encodeUserPassword of
                          Inl e \<Rightarrow> Inl e
                        | Inr password \<Rightarrow> Inr (Some (username, Some password), host))))))"

text \<open>
  The part of \<open>parse\<close> after the scheme has been split off and lower-cased: query,
  opaque form, authority and path.
\<close>

definition parse_rest :: "URL \<Rightarrow> string \<Rightarrow> url_error + URL" where
  "parse_rest url rest0 =
     (let forceq = (HasSuffix rest0 ''?'' \<and> count_list rest0 CHR ''?'' = 1);
          rest = (if forceq then take (length rest0 - 1) rest0 else Cut_before rest0 CHR ''?'');
          url1 = (if forceq then url\<lparr>ForceQuery := True\<rparr>
                  else url\<lparr>RawQuery := Cut_after rest0 CHR ''?''\<rparr>)
      in
      if \<not> HasPrefix rest ''/'' \<and> Scheme url1 \<noteq> '''' then Inr (url1\<lparr>Opaque := rest\<rparr>)
      else if \<not> HasPrefix rest ''/'' \<and> CHR '':'' \<in> set (Cut_before rest CHR ''/'')
        then Inl FirstPathSegmentColon
      else if (Scheme url1 \<noteq> '''' \<or> \<not> HasPrefix rest ''///'') \<and> HasPrefix rest ''//'' then
        (let a = drop 2 rest;
             authority = Cut_before a CHR ''/'';
             rest' = dropWhile (\<lambda>x. x \<noteq> CHR ''/'') a
         in case parseAuthority authority of
              Inl e \<Rightarrow> Inl e
            | Inr (user, host) \<Rightarrow>
                (case unescape rest' encodePath of
                   Inl e \<Rightarrow> Inl e
                 | Inr p \<Rightarrow> Inr (url1\<lparr>Userinfo := user, Host := host, Path := p\<rparr>)))
      else
        (let url2 = (if Scheme url1 \<noteq> '''' \<and> HasPrefix rest ''/''
                     then url1\<lparr>OmitHost := True\<rparr> else url1)
         in case unescape rest encodePath of
              Inl e \<Rightarrow> Inl e
            | Inr p \<Rightarrow> Inr (url2\<lparr>Path := p\<rparr>)))"

definition parse :: "string \<Rightarrow> url_error + URL" where
  "parse rawURL =
     (if stringContainsCTLByte rawURL then Inl InvalidControlCharacter
      else if rawURL = ''*'' then Inr (empty_URL\<lparr>Path := ''*''\<rparr>)
      else (case getScheme rawURL of
              Inl e \<Rightarrow> Inl e
            | Inr (scheme, rest) \<Rightarrow> parse_rest (empty_URL\<lparr>Scheme := ToLower scheme\<rparr>) rest))"

definition url_Parse :: "string \<Rightarrow> url_error + URL" where
  "url_Parse rawURL =
     (let u = Cut_before rawURL CHR ''#''; frag = Cut_after rawURL CHR ''#'' in
      case parse u of
        Inl e \<Rightarrow> Inl e
      | Inr url \<Rightarrow>
          if frag = '''' then Inr url
          else (case unescape frag encodeFragment of
                  Inl e \<Rightarrow> Inl e
                | Inr f \<Rightarrow> Inr (url\<lparr>Fragment := f\<rparr>)))"

text \<open>\<open>(*URL).Hostname\<close> and \<open>(*URL).Port\<close>, both through the library's \<open>splitHostPort\<close>.\<close>

definition url_splitHostPort :: "string \<Rightarrow> string \<times> string" where
  "url_splitHostPort hostPort =
     (let (host, port) =
            (case LastIndexByte hostPort CHR '':'' of
               Some colon \<Rightarrow>
                 if validOptionalPort (drop colon hostPort)
                 then (take colon hostPort, drop (colon + 1) hostPort)
                 else (hostPort, '''')
             | None \<Rightarrow> (hostPort, ''''))
      in if HasPrefix host ''['' \<and> HasSuffix host '']''
         then (take (length host - 2) (drop 1 host), port)
         else (host, port))"

definition Hostname :: "URL \<Rightarrow> string" where
  "Hostname u = fst (url_splitHostPort (Host u))"

definition Port :: "URL \<Rightarrow> string" where
  "Port u = snd (url_splitHostPort (Host u))"

section \<open>The standard library's \<open>net.SplitHostPort\<close>\<close>

text \<open>
  \<open>ParseTarget\<close> only distinguishes success from failure of \<open>net.SplitHostPort\<close>, so
  the result is an option: \<open>None\<close> is any of the library's address errors (missing port,
  too many colons, missing or unexpected bracket).
\<close>

definition net_SplitHostPort :: "string \<Rightarrow> (string \<times> string) option" where
  "net_SplitHostPort hostport =
     (case LastIndexByte hostport CHR '':'' of
        None \<Rightarrow> None
      | Some i \<Rightarrow>
          if HasPrefix hostport ''['' then
            (case strings_Index hostport '']'' of
               None \<Rightarrow> None
             | Some end \<Rightarrow>
                 if end + 1 = length hostport then None
                 else if end + 1 \<noteq> i then None
                 else if CHR ''['' \<in> set (drop 1 hostport) then None
                 else if CHR '']'' \<in> set (drop (end + 1) hostport) then None
                 else Some (take (end - 1) (drop 1 hostport), drop (i + 1) hostport))
          else if CHR '':'' \<in> set (take i hostport) then None
          else if CHR ''['' \<in> set hostport then None
          else if CHR '']'' \<in> set hostport then None
          else Some (take i hostport, drop (i + 1) hostport))"

section \<open>Errors (internal/errors)\<close>

text \<open>
  An error value of the standard library (from \<open>os\<close>, \<open>crypto/tls\<close>, \<open>net/http\<close>) or
  one built by \<open>fmt.Errorf\<close>: its \<open>Error()\<close> text and, when the value has a
  \<open>Timeout() bool\<close> method, what that method returns.
\<close>

record std_error =
  err_text :: string
  err_Timeout :: "bool option"

text \<open>\<open>fmt.Errorf(prefix + "%w", err)\<close>: the text is extended, the value has no \<open>Timeout\<close> method.\<close>

definition Errorf_wrap :: "string \<Rightarrow> std_error \<Rightarrow> std_error" where
  "Errorf_wrap prefix err = \<lparr>err_text = prefix @ err_text err, err_Timeout = None\<rparr>"

definition Errorf :: "string \<Rightarrow> std_error" where
  "Errorf msg = \<lparr>err_text = msg, err_Timeout = None\<rparr>"

text \<open>
  The message of a \<open>URLParseError\<close> is a fixed text, or a fixed prefix followed by the
  \<open>%v\<close> rendering of the URL parser's error; the latter is kept as the error value.
\<close>

datatype message =
    Msg string
  | Msg_invalid_URL url_error
  | Msg_invalid_target_format url_error

datatype go_error =
    URLParseError string message
  | ConnectionError string string std_error
  | TimeoutError int string
  | TLSError string std_error
  | UnknownFlagError string
  | NoRouteError string std_error
  | StdError std_error

definition ExitSuccess :: int where "ExitSuccess = 0"
definition ExitUnknownFlag :: int where "ExitUnknownFlag = 2"
definition ExitURLParse :: int where "ExitURLParse = 3"
definition ExitNoRoute :: int where "ExitNoRoute = 6"
definition ExitConnectFailed :: int where "ExitConnectFailed = 7"
definition ExitTimeout :: int where "ExitTimeout = 28"
definition ExitTLSError :: int where "ExitTLSError = 35"

fun MapErrorToExitCode :: "go_error option \<Rightarrow> int" where
  "MapErrorToExitCode None = ExitSuccess"
| "MapErrorToExitCode (Some (URLParseError _ _)) = ExitURLParse"
| "MapErrorToExitCode (Some (UnknownFlagError _)) = ExitUnknownFlag"
| "MapErrorToExitCode (Some (NoRouteError _ _)) = ExitNoRoute"
| "MapErrorToExitCode (Some (ConnectionError _ _ _)) = ExitConnectFailed"
| "MapErrorToExitCode (Some (TimeoutError _ _)) = ExitTimeout"
| "MapErrorToExitCode (Some (TLSError _ _)) = ExitTLSError"
| "MapErrorToExitCode (Some (StdError _)) = ExitConnectFailed"

section \<open>Target normalisation (internal/target)\<close>

text \<open>
  \<open>URL\<close> is a Go pointer: \<open>None\<close> is \<open>nil\<close>. \<open>ParseTarget\<close> never returns a target
  with a nil URL, but the detector and the transport guard against one.
\<close>

record ParsedTarget =
  URL :: "URL option"
  IsIP :: bool
  HasExplicitProto :: bool
  OriginalInput :: string

text \<open>
  \<open>isIPAddress\<close>. \<open>net.ParseIP\<close> belongs to the standard library and is a parameter:
  \<open>ParseIP s\<close> stands for \<open>net.ParseIP(s) != nil\<close>.
\<close>

definition isIPAddress :: "(string \<Rightarrow> bool) \<Rightarrow> string \<Rightarrow> bool" where
  "isIPAddress ParseIP host = ParseIP (TrimPrefix (TrimSuffix host '']'') ''['')"

definition ParseTarget :: "(string \<Rightarrow> bool) \<Rightarrow> string \<Rightarrow> go_error + ParsedTarget" where
  "ParseTarget ParseIP input =
     (if input = '''' then Inl (URLParseError input (Msg ''target cannot be empty''))
      else if strings_Contains input ''://'' then
        (case url_Parse input of
           Inl err \<Rightarrow> Inl (URLParseError input (Msg_invalid_URL err))
         | Inr parsedURL \<Rightarrow>
             if Host parsedURL = '''' then
               Inl (URLParseError input (Msg ''URL must contain a host''))
             else Inr \<lparr>URL = Some parsedURL,
                        IsIP = isIPAddress ParseIP (Hostname parsedURL),
                        HasExplicitProto = True,
                        OriginalInput = input\<rparr>)
      else
        (let hostPort = Cut_before input CHR ''/'';
             path = (if CHR ''/'' \<in> set input then dropWhile (\<lambda>x. x \<noteq> CHR ''/'') input
                     else ''/'');
             (host, port) = (case net_SplitHostPort hostPort of
                               Some hp \<Rightarrow> hp
                             | None \<Rightarrow> (hostPort, ''''))
         in
         if host = '''' then Inl (URLParseError input (Msg ''target must contain a host''))
         else
           (let urlStr = (if port \<noteq> '''' then ''http://'' @ host @ '':'' @ port @ path
                          else ''http://'' @ host @ path)
            in case url_Parse urlStr of
                 Inl err \<Rightarrow> Inl (URLParseError input (Msg_invalid_target_format err))
               | Inr parsedURL \<Rightarrow>
                   Inr \<lparr>URL = Some parsedURL,
                        IsIP = isIPAddress ParseIP host,
                        HasExplicitProto = False,
                        OriginalInput = input\<rparr>)))"

section \<open>The scheme an input spells out\<close>

text \<open>
  The specification speaks of the literal scheme of an input that contains \<open>://\<close>:
  the text before the first \<open>://\<close>. A scheme name is a letter followed by letters,
  digits, \<open>+\<close>, \<open>-\<close> and \<open>.\<close> (the bytes \<open>getScheme\<close> accepts).
\<close>

definition scheme_char :: "char \<Rightarrow> bool" where
  "scheme_char c =
     (is_letter c \<or> is_digit c \<or> c = CHR ''+'' \<or> c = CHR ''-'' \<or> c = CHR ''.'')"



text \<open>A plain host name: letters, digits, \<open>-\<close> and \<open>.\<close>.\<close>

definition host_char :: "char \<Rightarrow> bool" where
  "host_char c = (is_letter c \<or> is_digit c \<or> c = CHR ''-'' \<or> c = CHR ''.'')"

section \<open>Command-line options (internal/cli)\<close>

text \<open>\<open>time.Duration\<close> is a signed count of nanoseconds.\<close>

definition Second :: int where
  "Second = 1000000000"

record Options =
  Target :: string
  Proto :: string
  Method :: string
  Headers :: "string list"
  Data :: string
  DataRaw :: string
  User :: string
  Cookie :: string
  UserAgent :: string
  Referer :: string
  Verbose :: bool
  VerboseTLS :: bool
  Output :: string
  Head :: bool
  JSON :: bool
  Insecure :: bool
  CACert :: string
  Cert :: string
  Key :: string
  StrictSSL :: bool
  Timeout :: int
  ConnectTimeout :: int

section \<open>The outside world\<close>

text \<open>
  A Go function that dereferences a nil pointer panics; a function where that can
  happen returns an \<open>outcome\<close>.
\<close>

datatype 'a outcome = Panic | Returns 'a

text \<open>
  The transport configuration built by \<open>NewTransport\<close>: the dial and TLS-handshake
  timeouts and the TLS settings. \<open>RootCAs = None\<close> is Go's nil pool (the system roots);
  a pool built from a PEM file is the list of the files added to it. A loaded client
  certificate is kept as an opaque text.
\<close>

record tls_Config =
  InsecureSkipVerify :: bool
  RootCAs :: "string list option"
  Certificates :: "string list"

record Transport =
  DialTimeout :: int
  TLSHandshakeTimeout :: int
  TLSClientConfig :: tls_Config

record Client =
  client_Transport :: Transport
  client_Timeout :: int

text \<open>
  A request as far as probing is concerned: method, URL text and the deadline of its
  context (\<open>context.WithTimeout\<close>). Headers and body are not part of the model.
\<close>

record Request =
  req_Method :: string
  req_URL :: string
  req_ctx_timeout :: int

text \<open>A response: its status code and the handle of its body (and connection).\<close>

record Response =
  resp_StatusCode :: int
  Body :: nat

text \<open>\<open>ProbeResult\<close> (internal/protocol): the result of protocol detection.\<close>

record ProbeResult =
  Protocol :: string
  StatusCode :: int
  Duration :: int
  Response :: "Response option"
  Error :: "go_error option"

text \<open>
  What the program reads from its environment, as parameters: the file system and the
  certificate parsers (\<open>os.ReadFile\<close>, \<open>AppendCertsFromPEM\<close>, \<open>tls.LoadX509KeyPair\<close>),
  the URL printer \<open>(*URL).String\<close>, the validation done by
  \<open>http.NewRequestWithContext\<close> (\<open>None\<close>: no error), the network, which answers the
  \<open>n\<close>-th exchange of the invocation with the elapsed time and either a transport error
  or a status code, and the output stage \<open>WriteResponse\<close> (\<open>None\<close>: no error).
\<close>

record env =
  ReadFile :: "string \<Rightarrow> std_error + string"
  AppendCertsFromPEM :: "string \<Rightarrow> bool"
  LoadX509KeyPair :: "string \<Rightarrow> string \<Rightarrow> std_error + string"
  URL_String :: "URL \<Rightarrow> string"
  NewRequestWithContext :: "string \<Rightarrow> string \<Rightarrow> std_error option"
  RoundTrip :: "nat \<Rightarrow> Client \<Rightarrow> Request \<Rightarrow> int \<times> (std_error + int)"
  WriteResponse :: "Options \<Rightarrow> Request \<Rightarrow> ProbeResult \<Rightarrow> std_error option"

text \<open>
  What the program does to the world: the exchanges it started, in order; the response
  bodies it holds open; and, as a trace for the claims that count attempts, the scheme
  and timeout of every probe attempt, recorded on entry to \<open>probeProtocolWithTimeout\<close>.
\<close>

record world =
  exchanges :: "(Client \<times> Request) list"
  open_bodies :: "nat list"
  probes :: "(string \<times> int) list"

definition client_Do ::
  "env \<Rightarrow> Client \<Rightarrow> Request \<Rightarrow> world \<Rightarrow> int \<times> (std_error + Response) \<times> world" where
  "client_Do e client req w =
     (let n = length (exchanges w);
          w1 = w\<lparr>exchanges := exchanges w @ [(client, req)]\<rparr>
      in case RoundTrip e n client req of
           (d, Inl err) \<Rightarrow> (d, Inl err, w1)
         | (d, Inr code) \<Rightarrow>
             (d, Inr \<lparr>resp_StatusCode = code, Body = n\<rparr>,
              w1\<lparr>open_bodies := open_bodies w1 @ [n]\<rparr>))"

definition Body_Close :: "Response \<Rightarrow> world \<Rightarrow> world" where
  "Body_Close resp w = w\<lparr>open_bodies := removeAll (Body resp) (open_bodies w)\<rparr>"

section \<open>Transport construction (internal/transport)\<close>

text \<open>The client-certificate part of \<open>NewTransport\<close> (the last \<open>if\<close> chain of the function).\<close>

definition load_client_certificate ::
  "env \<Rightarrow> Options \<Rightarrow> string \<Rightarrow> tls_Config \<Rightarrow> go_error + tls_Config" where
  "load_client_certificate e opts host tlsConfig =
     (if Cert opts \<noteq> '''' \<and> Key opts \<noteq> '''' then
        (case LoadX509KeyPair e (Cert opts) (Key opts) of
           Inl err \<Rightarrow>
             Inl (TLSError host (Errorf_wrap ''failed to load client certificate: '' err))
         | Inr cert \<Rightarrow> Inr (tlsConfig\<lparr>Certificates := [cert]\<rparr>))
      else if Cert opts \<noteq> '''' then
        Inl (TLSError host (Errorf ''--cert requires --key to be specified''))
      else if Key opts \<noteq> '''' then
        Inl (TLSError host (Errorf ''--key requires --cert to be specified''))
      else Inr tlsConfig)"

text \<open>
  \<open>NewTransport\<close>. The source reads \<open>parsedTarget.IsIP\<close> before its own nil check of
  \<open>parsedTarget\<close>, so a nil target panics.
\<close>

definition NewTransport ::
  "env \<Rightarrow> Options \<Rightarrow> ParsedTarget option \<Rightarrow> (go_error + Transport) outcome" where
  "NewTransport e opts parsedTarget =
     (case parsedTarget of
        None \<Rightarrow> Panic
      | Some pt \<Rightarrow>
          (let tlsConfig0 = \<lparr>InsecureSkipVerify = False, RootCAs = None, Certificates = []\<rparr>;
               tlsConfig1 =
                 (if IsIP pt \<and> \<not> StrictSSL opts then tlsConfig0\<lparr>InsecureSkipVerify := True\<rparr>
                  else if Insecure opts then tlsConfig0\<lparr>InsecureSkipVerify := True\<rparr>
                  else tlsConfig0);
               host = (case URL pt of Some u \<Rightarrow> Host u | None \<Rightarrow> ''unknown'');
               loaded =
                 (if CACert opts \<noteq> '''' then
                    (case ReadFile e (CACert opts) of
                       Inl err \<Rightarrow>
                         Inl (TLSError host (Errorf_wrap ''failed to read CA certificate: '' err))
                     | Inr caCert \<Rightarrow>
                         if \<not> AppendCertsFromPEM e caCert then
                           Inl (TLSError host (Errorf ''failed to parse CA certificate''))
                         else load_client_certificate e opts host
                                (tlsConfig1\<lparr>RootCAs := Some [caCert]\<rparr>))
                  else load_client_certificate e opts host tlsConfig1)
           in Returns
                (case loaded of
                   Inl err \<Rightarrow> Inl err
                 | Inr tlsConfig \<Rightarrow>
                     Inr \<lparr>DialTimeout = ConnectTimeout opts,
                          TLSHandshakeTimeout = ConnectTimeout opts,
                          TLSClientConfig = tlsConfig\<rparr>)))"

definition ApplyTimeouts :: "Options \<Rightarrow> int" where
  "ApplyTimeouts opts = (if Timeout opts > 0 then Timeout opts else 10 * Second)"

definition GetConnectTimeout :: "Options \<Rightarrow> int" where
  "GetConnectTimeout opts =
     (if ConnectTimeout opts > 0 then ConnectTimeout opts else 10 * Second)"

section \<open>Protocol detection (internal/protocol)\<close>

text \<open>
  \<open>contains\<close>, as the source has it: a comparison of lengths, under a comment that
  announces a substring test.
\<close>

definition contains :: "string \<Rightarrow> string \<Rightarrow> bool" where
  "contains s substr =
     (length s \<ge> length substr
      \<and> (s = substr \<or> length substr = 0 \<or> (length s > 0 \<and> length substr > 0)))"

text \<open>
  \<open>mapProbeError\<close>. Its only caller passes the error of \<open>client.Do\<close>, a value of the
  standard library; \<open>None\<close> is a nil error and a nil target.
\<close>

definition mapProbeError :: "std_error option \<Rightarrow> ParsedTarget option \<Rightarrow> go_error option" where
  "mapProbeError err parsedTarget =
     (case err of
        None \<Rightarrow> None
      | Some er \<Rightarrow>
          (let errStr = err_text er;
               dflt = Some (ConnectionError ''unknown'' ''unknown'' er)
           in
           if err_Timeout er = Some True then Some (TimeoutError 0 ''request'')
           else
             (case parsedTarget of
                None \<Rightarrow> dflt
              | Some pt \<Rightarrow>
                  (case URL pt of
                     None \<Rightarrow> dflt
                   | Some u \<Rightarrow>
                       (let host = Hostname u in
                        if host \<noteq> '''' then
                          (if contains errStr ''connection refused'' then
                             Some (ConnectionError host (Port u) er)
                           else if contains errStr ''no such host''
                                   \<or> contains errStr ''name resolution'' then
                             Some (NoRouteError host er)
                           else if contains errStr ''certificate'' \<or> contains errStr ''tls''
                                   \<or> contains errStr ''ssl'' then
                             Some (TLSError host er)
                           else dflt)
                        else dflt)))))"

text \<open>
  \<open>constructURL\<close> copies \<open>*parsedTarget.URL\<close>, which panics for a nil target or a nil
  URL, sets the scheme of the copy and prints it.
\<close>

definition constructURL :: "env \<Rightarrow> ParsedTarget option \<Rightarrow> string \<Rightarrow> string outcome" where
  "constructURL e parsedTarget proto =
     (case parsedTarget of
        None \<Rightarrow> Panic
      | Some pt \<Rightarrow>
          (case URL pt of
             None \<Rightarrow> Panic
           | Some u \<Rightarrow> Returns (URL_String e (u\<lparr>Scheme := proto\<rparr>))))"

definition probeProtocolWithTimeout ::
  "env \<Rightarrow> ParsedTarget option \<Rightarrow> Options \<Rightarrow> string \<Rightarrow> int \<Rightarrow> world
     \<Rightarrow> (ProbeResult \<times> world) outcome" where
  "probeProtocolWithTimeout e parsedTarget opts proto timeout w =
     (let result = \<lparr>Protocol = proto, StatusCode = 0, Duration = 0, Response = None,
                     Error = None\<rparr>;
          probeOpts = opts\<lparr>Timeout := timeout, ConnectTimeout := timeout\<rparr>;
          w0 = w\<lparr>probes := probes w @ [(proto, timeout)]\<rparr>
      in
      case NewTransport e probeOpts parsedTarget of
        Panic \<Rightarrow> Panic
      | Returns (Inl err) \<Rightarrow> Returns (result\<lparr>Error := Some err\<rparr>, w0)
      | Returns (Inr tr) \<Rightarrow>
          (let client = \<lparr>client_Transport = tr, client_Timeout = timeout\<rparr> in
           case constructURL e parsedTarget proto of
             Panic \<Rightarrow> Panic
           | Returns probeURL \<Rightarrow>
               (case NewRequestWithContext e ''HEAD'' probeURL of
                  Some err \<Rightarrow>
                    Returns
                      (result\<lparr>Error :=
                         Some (StdError (Errorf_wrap ''failed to create request: '' err))\<rparr>,
                       w0)
                | None \<Rightarrow>
                    (let req = \<lparr>req_Method = ''HEAD'', req_URL = probeURL,
                                req_ctx_timeout = timeout\<rparr>
                     in case client_Do e client req w0 of
                          (duration, Inl err, w1) \<Rightarrow>
                            Returns
                              (result\<lparr>Duration := duration,
                                      Error := mapProbeError (Some err) parsedTarget\<rparr>,
                               w1)
                        | (duration, Inr resp, w1) \<Rightarrow>
                            Returns
                              (result\<lparr>Duration := duration, Response := Some resp,
                                      StatusCode := resp_StatusCode resp\<rparr>,
                               w1)))))"

definition probeProtocol ::
  "env \<Rightarrow> ParsedTarget option \<Rightarrow> Options \<Rightarrow> string \<Rightarrow> world
     \<Rightarrow> (ProbeResult \<times> world) outcome" where
  "probeProtocol e parsedTarget opts proto w =
     probeProtocolWithTimeout e parsedTarget opts proto (ApplyTimeouts opts) w"

text \<open>
  \<open>DetectProtocol\<close> returns the probe result and a Go error (\<open>None\<close> is nil), and the
  world after its attempts.
\<close>

definition DetectProtocol ::
  "env \<Rightarrow> ParsedTarget option \<Rightarrow> Options \<Rightarrow> world
     \<Rightarrow> ((ProbeResult \<times> go_error option) \<times> world) outcome" where
  "DetectProtocol e parsedTarget opts w =
     (if Proto opts \<noteq> '''' \<and> Proto opts \<noteq> ''auto'' then
        (case probeProtocol e parsedTarget opts (Proto opts) w of
           Panic \<Rightarrow> Panic
         | Returns (result, w1) \<Rightarrow> Returns ((result, Error result), w1))
      else
        (case probeProtocolWithTimeout e parsedTarget opts ''http'' (3 * Second) w of
           Panic \<Rightarrow> Panic
         | Returns (httpResult, w1) \<Rightarrow>
             if Error httpResult = None \<and> StatusCode httpResult \<ge> 200
                \<and> StatusCode httpResult < 400
             then Returns ((httpResult, None), w1)
             else
               (case probeProtocolWithTimeout e parsedTarget opts ''https'' (7 * Second) w1 of
                  Panic \<Rightarrow> Panic
                | Returns (httpsResult, w2) \<Rightarrow>
                    if Error httpsResult = None then Returns ((httpsResult, None), w2)
                    else Returns ((httpsResult, None), w2))))"

section \<open>The workflow (cmd/purl)\<close>

text \<open>
  \<open>BuildRequest\<close> (internal/request), as far as the model's \<open>Request\<close> goes: the
  choice of the method and the construction of the request for the target's URL. The
  header assignments that follow in the source do not change these fields.
\<close>

definition BuildRequest ::
  "env \<Rightarrow> int \<Rightarrow> ParsedTarget \<Rightarrow> Options \<Rightarrow> (std_error + Request) outcome" where
  "BuildRequest e ctx_timeout parsedTarget opts =
     (let method =
            (if Method opts = '''' then
               (if Data opts \<noteq> '''' \<or> DataRaw opts \<noteq> '''' then ''POST''
                else if Head opts then ''HEAD''
                else ''GET'')
             else Method opts)
      in case URL parsedTarget of
           None \<Rightarrow> Panic
         | Some u \<Rightarrow>
             (case NewRequestWithContext e method (URL_String e u) of
                Some err \<Rightarrow> Returns (Inl (Errorf_wrap ''failed to create request: '' err))
              | None \<Rightarrow>
                  Returns (Inr \<lparr>req_Method = method, req_URL = URL_String e u,
                                req_ctx_timeout = ctx_timeout\<rparr>)))"

text \<open>
  \<open>run\<close>: the exit code and the world it leaves. \<open>printError\<close> writes to the standard
  error stream, which the model does not keep. The deferred \<open>resp.Body.Close()\<close> runs
  at both returns that follow it.
\<close>

definition run :: "(string \<Rightarrow> bool) \<Rightarrow> env \<Rightarrow> Options \<Rightarrow> world \<Rightarrow> (int \<times> world) outcome" where
  "run ParseIP e opts w =
     (case ParseTarget ParseIP (Target opts) of
        Inl err \<Rightarrow> Returns (MapErrorToExitCode (Some err), w)
      | Inr parsedTarget \<Rightarrow>
          (case DetectProtocol e (Some parsedTarget) opts w of
             Panic \<Rightarrow> Panic
           | Returns ((probeResult, err), w1) \<Rightarrow>
               if err \<noteq> None then Returns (MapErrorToExitCode err, w1)
               else if Error probeResult \<noteq> None then
                 Returns (MapErrorToExitCode (Error probeResult), w1)
               else
                 (case URL parsedTarget of
                    None \<Rightarrow> Panic
                  | Some u \<Rightarrow>
                      (let parsedTarget' =
                             parsedTarget\<lparr>URL := Some (u\<lparr>Scheme := Protocol probeResult\<rparr>)\<rparr>
                       in case BuildRequest e (ApplyTimeouts opts) parsedTarget' opts of
                            Panic \<Rightarrow> Panic
                          | Returns (Inl err) \<Rightarrow>
                              Returns (MapErrorToExitCode (Some (StdError err)), w1)
                          | Returns (Inr req) \<Rightarrow>
                              (case NewTransport e opts (Some parsedTarget') of
                                 Panic \<Rightarrow> Panic
                               | Returns (Inl err) \<Rightarrow>
                                   Returns (MapErrorToExitCode (Some err), w1)
                               | Returns (Inr tr) \<Rightarrow>
                                   (case client_Do e
                                           \<lparr>client_Transport = tr,
                                            client_Timeout = ApplyTimeouts opts\<rparr> req w1 of
                                      (d, Inl err, w2) \<Rightarrow>
                                        Returns
                                          (MapErrorToExitCode (Some (StdError err)), w2)
                                    | (d, Inr resp, w2) \<Rightarrow>
                                        (case WriteResponse e opts req
                                                (probeResult\<lparr>Response := Some resp,
                                                   StatusCode := resp_StatusCode resp\<rparr>) of
                                           Some err \<Rightarrow>
                                             Returns (ExitConnectFailed, Body_Close resp w2)
                                         | None \<Rightarrow>
                                             Returns (ExitSuccess, Body_Close resp w2))))))))"

section \<open>Example inputs\<close>

text \<open>
  Concrete options, targets and environments at which the theorems below are
  instantiated. \<open>default_opts\<close> are the defaults of the command-line parser.
\<close>

definition default_opts :: Options where
  "default_opts =
     \<lparr>Target = '''', Proto = ''auto'', Method = '''', Headers = [], Data = '''', DataRaw = '''',
      User = '''', Cookie = '''', UserAgent = '''', Referer = '''', Verbose = False,
      VerboseTLS = False, Output = '''', Head = False, JSON = False, Insecure = False,
      CACert = '''', Cert = '''', Key = '''', StrictSSL = False,
      Timeout = 10 * Second, ConnectTimeout = 0\<rparr>"

definition ip_target :: ParsedTarget where
  "ip_target =
     \<lparr>URL = Some (empty_URL\<lparr>Scheme := ''http'', Host := ''192.168.1.1:8080'',
                             Path := ''/api''\<rparr>),
      IsIP = True, HasExplicitProto = False, OriginalInput = ''192.168.1.1:8080/api''\<rparr>"

definition https_target :: ParsedTarget where
  "https_target =
     \<lparr>URL = Some (empty_URL\<lparr>Scheme := ''https'', Host := ''example.com'', Path := ''/''\<rparr>),
      IsIP = False, HasExplicitProto = True, OriginalInput = ''https://example.com/''\<rparr>"

definition no_such_file :: std_error where
  "no_such_file = \<lparr>err_text = ''no such file or directory'', err_Timeout = None\<rparr>"

definition connection_refused :: std_error where
  "connection_refused =
     \<lparr>err_text = ''dial tcp: connect: connection refused'', err_Timeout = None\<rparr>"

text \<open>
  An environment with one readable CA file, one loadable key pair, a URL printer for
  URLs made of scheme, host and path, and the network \<open>net\<close>.
\<close>

definition example_env :: "(nat \<Rightarrow> Client \<Rightarrow> Request \<Rightarrow> int \<times> (std_error + int)) \<Rightarrow> env" where
  "example_env net =
     \<lparr>ReadFile = (\<lambda>p. if p = ''ca.pem'' then Inr ''CA'' else Inl no_such_file),
      AppendCertsFromPEM = (\<lambda>pem. pem = ''CA''),
      LoadX509KeyPair =
        (\<lambda>c k. if c = ''client.crt'' \<and> k = ''client.key'' then Inr ''PAIR''
                else Inl no_such_file),
      URL_String = (\<lambda>u. Scheme u @ ''://'' @ Host u @ Path u),
      NewRequestWithContext = (\<lambda>m u. None),
      RoundTrip = net,
      WriteResponse = (\<lambda>opts req result. None)\<rparr>"

text \<open>Networks: one that answers every request with 200; one that serves plain HTTP
  only, with status 404, and refuses HTTPS connections; one that refuses everything.\<close>

definition net_ok :: "nat \<Rightarrow> Client \<Rightarrow> Request \<Rightarrow> int \<times> (std_error + int)" where
  "net_ok n c r = (5000000, Inr 200)"

definition net_http_404 :: "nat \<Rightarrow> Client \<Rightarrow> Request \<Rightarrow> int \<times> (std_error + int)" where
  "net_http_404 n c r =
     (if HasPrefix (req_URL r) ''http://'' then (5000000, Inr 404)
      else (1000000, Inl connection_refused))"

definition net_down :: "nat \<Rightarrow> Client \<Rightarrow> Request \<Rightarrow> int \<times> (std_error + int)" where
  "net_down n c r = (1000000, Inl connection_refused)"

definition no_IP :: "string \<Rightarrow> bool" where
  "no_IP s = False"

definition world0 :: world where
  "world0 = \<lparr>exchanges = [], open_bodies = [], probes = []\<rparr>"

text \<open>Two transport errors as the standard library words them; neither is a timeout.\<close>

definition no_such_host :: std_error where
  "no_such_host =
     \<lparr>err_text = ''dial tcp: lookup example.com: no such host'', err_Timeout = None\<rparr>"

definition unknown_authority :: std_error where
  "unknown_authority =
     \<lparr>err_text = ''x509: certificate signed by unknown authority'', err_Timeout = None\<rparr>"

section \<open>Unfolding rules for concrete inputs\<close>

lemmas example_defs = example_env_def net_ok_def net_http_404_def net_down_def default_opts_def
  ip_target_def https_target_def world0_def empty_URL_def no_such_file_def connection_refused_def
  no_IP_def Second_def

lemmas detect_defs = DetectProtocol_def probeProtocol_def probeProtocolWithTimeout_def
  NewTransport_def load_client_certificate_def constructURL_def client_Do_def mapProbeError_def
  ApplyTimeouts_def Errorf_wrap_def Errorf_def Let_def

lemmas url_defs = Hostname_def Port_def url_splitHostPort_def HasPrefix_def HasSuffix_def
  LastIndexByte_def validOptionalPort_def is_digit_def byte_def

lemmas parse_defs = ParseTarget_def url_Parse_def parse_def parse_rest_def getScheme_def
  parseAuthority_def parseHost_def strings_Contains_def Cut_before_def Cut_after_def
  stringContainsCTLByte_def ToLower_def lower_byte_def is_letter_def is_lower_def is_upper_def
  isIPAddress_def TrimPrefix_def TrimSuffix_def shouldEscape_Host_def net_SplitHostPort_def
  char_of_eq_iff Let_def

section \<open>Transport construction: what it returns\<close>

lemma load_client_certificate_Inr:
  "load_client_certificate e opts host c = Inr c' \<Longrightarrow>
     (Cert opts \<noteq> '''' \<and> Key opts \<noteq> ''''
        \<and> (\<exists>cert. LoadX509KeyPair e (Cert opts) (Key opts) = Inr cert
                   \<and> c' = c\<lparr>Certificates := [cert]\<rparr>))
     \<or> (Cert opts = '''' \<and> Key opts = '''' \<and> c' = c)"
  by (auto simp: load_client_certificate_def split: if_splits sum.splits)

lemma NewTransport_returns:
  "\<exists>x. NewTransport e opts (Some pt) = Returns x"
  by (simp add: NewTransport_def Let_def)

lemma NewTransport_timeouts:
  "NewTransport e opts (Some pt) = Returns (Inr tr) \<Longrightarrow>
     DialTimeout tr = ConnectTimeout opts \<and> TLSHandshakeTimeout tr = ConnectTimeout opts"
  by (auto simp: NewTransport_def Let_def split: sum.splits)

text \<open>
  C7. The skip-verification decision of a constructed transport is true exactly when
  \<open>insecure\<close> is set, or the target is an IP literal and \<open>strict_ssl\<close> is not set; and
  with no certificate files configured a transport is constructed for every
  combination of the flags.
\<close>

theorem NewTransport_InsecureSkipVerify:
  "(CACert opts = '''' \<and> Cert opts = '''' \<and> Key opts = ''''
      \<longrightarrow> (\<exists>tr. NewTransport e opts (Some pt) = Returns (Inr tr)))
   \<and> (\<forall>tr. NewTransport e opts (Some pt) = Returns (Inr tr)
         \<longrightarrow> InsecureSkipVerify (TLSClientConfig tr)
             = (Insecure opts \<or> (IsIP pt \<and> \<not> StrictSSL opts)))"
proof (rule conjI)
  show "CACert opts = '''' \<and> Cert opts = '''' \<and> Key opts = ''''
      \<longrightarrow> (\<exists>tr. NewTransport e opts (Some pt) = Returns (Inr tr))"
    by (simp add: NewTransport_def load_client_certificate_def Let_def)
next
  show "\<forall>tr. NewTransport e opts (Some pt) = Returns (Inr tr)
         \<longrightarrow> InsecureSkipVerify (TLSClientConfig tr)
             = (Insecure opts \<or> (IsIP pt \<and> \<not> StrictSSL opts))"
    by (auto simp: NewTransport_def Let_def split: if_splits sum.splits
          dest!: load_client_certificate_Inr)
qed

theorem NewTransport_InsecureSkipVerify_witness:
  "(\<exists>tr. NewTransport (example_env net_ok) default_opts (Some ip_target) = Returns (Inr tr)
         \<and> InsecureSkipVerify (TLSClientConfig tr))
   \<and> (\<exists>tr. NewTransport (example_env net_ok) (default_opts\<lparr>StrictSSL := True\<rparr>) (Some ip_target)
              = Returns (Inr tr)
         \<and> \<not> InsecureSkipVerify (TLSClientConfig tr))
   \<and> (\<exists>tr. NewTransport (example_env net_ok)
               (default_opts\<lparr>StrictSSL := True, Insecure := True\<rparr>) (Some https_target)
              = Returns (Inr tr)
         \<and> InsecureSkipVerify (TLSClientConfig tr))"
proof -
  note t1 = NewTransport_InsecureSkipVerify [of default_opts "example_env net_ok" ip_target]
  note t2 = NewTransport_InsecureSkipVerify
              [of "default_opts\<lparr>StrictSSL := True\<rparr>" "example_env net_ok" ip_target]
  note t3 = NewTransport_InsecureSkipVerify
              [of "default_opts\<lparr>StrictSSL := True, Insecure := True\<rparr>" "example_env net_ok"
                  https_target]
  have c: "CACert default_opts = '''' \<and> Cert default_opts = '''' \<and> Key default_opts = ''''"
          "Insecure default_opts = False" "StrictSSL default_opts = False"
          "IsIP ip_target" "\<not> IsIP https_target"
    by (simp_all add: default_opts_def ip_target_def https_target_def)
  from t1 c have "\<exists>tr. NewTransport (example_env net_ok) default_opts (Some ip_target)
                        = Returns (Inr tr)
                      \<and> InsecureSkipVerify (TLSClientConfig tr)"
    by auto
  moreover from t2 c have "\<exists>tr. NewTransport (example_env net_ok)
                                 (default_opts\<lparr>StrictSSL := True\<rparr>) (Some ip_target)
                               = Returns (Inr tr)
                             \<and> \<not> InsecureSkipVerify (TLSClientConfig tr)"
    by auto
  moreover from t3 c have "\<exists>tr. NewTransport (example_env net_ok)
                                 (default_opts\<lparr>StrictSSL := True, Insecure := True\<rparr>)
                                 (Some https_target)
                               = Returns (Inr tr)
                             \<and> InsecureSkipVerify (TLSClientConfig tr)"
    by auto
  ultimately show ?thesis by blast
qed

text \<open>
  C8. With a CA path set, a file that cannot be read or holds no certificate makes
  \<open>NewTransport\<close> return a TLS error, whatever the flags that decide verification are;
  a client certificate without a key, or a key without a certificate, does the same.
  With both set, a constructed transport presents exactly the loaded pair; and whenever
  the pair loads and the CA file, if one is configured, reads and parses, a transport
  is constructed and presents the pair (with the CA file as its root pool when one is
  configured). A pair that does not load is a TLS error as well.
\<close>

theorem NewTransport_certificate_errors:
  "(CACert opts \<noteq> ''''
      \<and> ((\<exists>err. ReadFile e (CACert opts) = Inl err)
          \<or> (\<exists>pem. ReadFile e (CACert opts) = Inr pem \<and> \<not> AppendCertsFromPEM e pem))
      \<longrightarrow> (\<exists>host cause. NewTransport e opts (Some pt) = Returns (Inl (TLSError host cause))))
   \<and> ((Cert opts \<noteq> '''' \<and> Key opts = '''') \<or> (Cert opts = '''' \<and> Key opts \<noteq> '''')
      \<longrightarrow> (\<exists>host cause. NewTransport e opts (Some pt) = Returns (Inl (TLSError host cause))))
   \<and> (Cert opts \<noteq> '''' \<and> Key opts \<noteq> ''''
      \<longrightarrow> (\<forall>tr. NewTransport e opts (Some pt) = Returns (Inr tr)
             \<longrightarrow> (\<exists>cert. LoadX509KeyPair e (Cert opts) (Key opts) = Inr cert
                        \<and> Certificates (TLSClientConfig tr) = [cert])))
   \<and> (Cert opts \<noteq> '''' \<and> Key opts \<noteq> ''''
        \<and> (CACert opts = ''''
            \<or> (\<exists>pem. ReadFile e (CACert opts) = Inr pem \<and> AppendCertsFromPEM e pem))
      \<longrightarrow> (\<forall>cert. LoadX509KeyPair e (Cert opts) (Key opts) = Inr cert
             \<longrightarrow> (\<exists>tr. NewTransport e opts (Some pt) = Returns (Inr tr)
                       \<and> Certificates (TLSClientConfig tr) = [cert]
                       \<and> RootCAs (TLSClientConfig tr)
                           = (if CACert opts = '''' then None
                              else (case ReadFile e (CACert opts) of
                                      Inr pem \<Rightarrow> Some [pem] | Inl err \<Rightarrow> None)))))
   \<and> (Cert opts \<noteq> '''' \<and> Key opts \<noteq> ''''
      \<longrightarrow> (\<forall>err. LoadX509KeyPair e (Cert opts) (Key opts) = Inl err
             \<longrightarrow> (\<exists>host cause. NewTransport e opts (Some pt)
                                  = Returns (Inl (TLSError host cause)))))"
proof (intro conjI)
  show "CACert opts \<noteq> ''''
      \<and> ((\<exists>err. ReadFile e (CACert opts) = Inl err)
          \<or> (\<exists>pem. ReadFile e (CACert opts) = Inr pem \<and> \<not> AppendCertsFromPEM e pem))
      \<longrightarrow> (\<exists>host cause. NewTransport e opts (Some pt) = Returns (Inl (TLSError host cause)))"
    by (auto simp: NewTransport_def Let_def)
next
  show "(Cert opts \<noteq> '''' \<and> Key opts = '''') \<or> (Cert opts = '''' \<and> Key opts \<noteq> '''')
      \<longrightarrow> (\<exists>host cause. NewTransport e opts (Some pt) = Returns (Inl (TLSError host cause)))"
    by (auto simp: NewTransport_def Let_def load_client_certificate_def split: sum.splits)
next
  show "Cert opts \<noteq> '''' \<and> Key opts \<noteq> ''''
      \<longrightarrow> (\<forall>tr. NewTransport e opts (Some pt) = Returns (Inr tr)
             \<longrightarrow> (\<exists>cert. LoadX509KeyPair e (Cert opts) (Key opts) = Inr cert
                        \<and> Certificates (TLSClientConfig tr) = [cert]))"
    by (auto simp: NewTransport_def Let_def split: if_splits sum.splits
          dest!: load_client_certificate_Inr)
next
  show "Cert opts \<noteq> '''' \<and> Key opts \<noteq> ''''
        \<and> (CACert opts = ''''
            \<or> (\<exists>pem. ReadFile e (CACert opts) = Inr pem \<and> AppendCertsFromPEM e pem))
      \<longrightarrow> (\<forall>cert. LoadX509KeyPair e (Cert opts) (Key opts) = Inr cert
             \<longrightarrow> (\<exists>tr. NewTransport e opts (Some pt) = Returns (Inr tr)
                       \<and> Certificates (TLSClientConfig tr) = [cert]
                       \<and> RootCAs (TLSClientConfig tr)
                           = (if CACert opts = '''' then None
                              else (case ReadFile e (CACert opts) of
                                      Inr pem \<Rightarrow> Some [pem] | Inl err \<Rightarrow> None))))"
    by (auto simp: NewTransport_def Let_def load_client_certificate_def)
next
  show "Cert opts \<noteq> '''' \<and> Key opts \<noteq> ''''
      \<longrightarrow> (\<forall>err. LoadX509KeyPair e (Cert opts) (Key opts) = Inl err
             \<longrightarrow> (\<exists>host cause. NewTransport e opts (Some pt)
                                  = Returns (Inl (TLSError host cause))))"
    by (auto simp: NewTransport_def Let_def load_client_certificate_def split: sum.splits)
qed

theorem NewTransport_certificate_errors_witness:
  "NewTransport (example_env net_ok) (default_opts\<lparr>CACert := ''missing.pem'', Insecure := True\<rparr>)
       (Some ip_target)
     = Returns (Inl (TLSError ''192.168.1.1:8080''
         \<lparr>err_text = ''failed to read CA certificate: no such file or directory'',
          err_Timeout = None\<rparr>))
   \<and> NewTransport (example_env net_ok) (default_opts\<lparr>Cert := ''client.crt''\<rparr>) (Some ip_target)
     = Returns (Inl (TLSError ''192.168.1.1:8080''
         \<lparr>err_text = ''--cert requires --key to be specified'', err_Timeout = None\<rparr>))
   \<and> NewTransport (example_env net_ok) (default_opts\<lparr>Key := ''client.key''\<rparr>) (Some ip_target)
     = Returns (Inl (TLSError ''192.168.1.1:8080''
         \<lparr>err_text = ''--key requires --cert to be specified'', err_Timeout = None\<rparr>))
   \<and> (\<exists>tr. NewTransport (example_env net_ok)
              (default_opts\<lparr>Cert := ''client.crt'', Key := ''client.key''\<rparr>) (Some ip_target)
            = Returns (Inr tr)
          \<and> Certificates (TLSClientConfig tr) = [''PAIR''])
   \<and> (\<exists>tr. NewTransport (example_env net_ok)
              (default_opts\<lparr>CACert := ''ca.pem'', Cert := ''client.crt'', Key := ''client.key''\<rparr>)
              (Some ip_target)
            = Returns (Inr tr)
          \<and> Certificates (TLSClientConfig tr) = [''PAIR'']
          \<and> RootCAs (TLSClientConfig tr) = Some [''CA''])"
proof -
  let ?o = "default_opts\<lparr>CACert := ''ca.pem'', Cert := ''client.crt'', Key := ''client.key''\<rparr>"
  note t1 = NewTransport_certificate_errors
              [of "default_opts\<lparr>CACert := ''missing.pem'', Insecure := True\<rparr>"
                  "example_env net_ok" ip_target]
  note t5 = NewTransport_certificate_errors [of ?o "example_env net_ok" ip_target]
  have h5: "Cert ?o \<noteq> '''' \<and> Key ?o \<noteq> ''''
        \<and> (CACert ?o = ''''
            \<or> (\<exists>pem. ReadFile (example_env net_ok) (CACert ?o) = Inr pem
                      \<and> AppendCertsFromPEM (example_env net_ok) pem))"
       "LoadX509KeyPair (example_env net_ok) (Cert ?o) (Key ?o) = Inr ''PAIR''"
       "CACert ?o \<noteq> ''''" "ReadFile (example_env net_ok) (CACert ?o) = Inr ''CA''"
    by (simp_all add: example_env_def)
  from t5 h5 have e5: "\<exists>tr. NewTransport (example_env net_ok) ?o (Some ip_target)
            = Returns (Inr tr)
          \<and> Certificates (TLSClientConfig tr) = [''PAIR'']
          \<and> RootCAs (TLSClientConfig tr) = Some [''CA'']"
    by (elim conjE) (drule mp, simp, drule spec [of _ "''PAIR''"], simp)
  have e1: "NewTransport (example_env net_ok)
              (default_opts\<lparr>CACert := ''missing.pem'', Insecure := True\<rparr>) (Some ip_target)
     = Returns (Inl (TLSError ''192.168.1.1:8080''
         \<lparr>err_text = ''failed to read CA certificate: no such file or directory'',
          err_Timeout = None\<rparr>))"
    by (simp add: detect_defs example_defs)
  have e2: "NewTransport (example_env net_ok) (default_opts\<lparr>Cert := ''client.crt''\<rparr>)
              (Some ip_target)
     = Returns (Inl (TLSError ''192.168.1.1:8080''
         \<lparr>err_text = ''--cert requires --key to be specified'', err_Timeout = None\<rparr>))"
    by (simp add: detect_defs example_defs)
  have e3: "NewTransport (example_env net_ok) (default_opts\<lparr>Key := ''client.key''\<rparr>)
              (Some ip_target)
     = Returns (Inl (TLSError ''192.168.1.1:8080''
         \<lparr>err_text = ''--key requires --cert to be specified'', err_Timeout = None\<rparr>))"
    by (simp add: detect_defs example_defs)
  have e4: "\<exists>tr. NewTransport (example_env net_ok)
              (default_opts\<lparr>Cert := ''client.crt'', Key := ''client.key''\<rparr>) (Some ip_target)
            = Returns (Inr tr)
          \<and> Certificates (TLSClientConfig tr) = [''PAIR'']"
    by (simp add: detect_defs example_defs)
  from t1 e1 e2 e3 e4 e5 show ?thesis by blast
qed

section \<open>Protocol detection: one attempt\<close>

text \<open>
  For a target with a URL an attempt always returns. It records itself in the trace,
  reports the scheme it was asked to try, and starts at most one exchange: a \<open>HEAD\<close>
  request for the target's URL with the scheme replaced, under the attempt's timeout
  for the context, the client, the dial and the TLS handshake.
\<close>

lemma probe_returns:
  assumes "URL pt = Some u"
  shows "\<exists>r w'. probeProtocolWithTimeout e (Some pt) opts proto t w = Returns (r, w')
           \<and> Protocol r = proto
           \<and> probes w' = probes w @ [(proto, t)]
           \<and> (exchanges w' = exchanges w
               \<or> (\<exists>c. exchanges w' = exchanges w @
                          [(c, \<lparr>req_Method = ''HEAD'',
                                req_URL = URL_String e (u\<lparr>Scheme := proto\<rparr>),
                                req_ctx_timeout = t\<rparr>)]
                      \<and> client_Timeout c = t
                      \<and> DialTimeout (client_Transport c) = t
                      \<and> TLSHandshakeTimeout (client_Transport c) = t))"
proof -
  let ?po = "opts\<lparr>Timeout := t, ConnectTimeout := t\<rparr>"
  obtain x where x: "NewTransport e ?po (Some pt) = Returns x"
    using NewTransport_returns by blast
  show ?thesis
  proof (cases x)
    case (Inl err)
    with x show ?thesis
      by (simp add: probeProtocolWithTimeout_def Let_def)
  next
    case (Inr tr)
    with x have tm: "DialTimeout tr = t" "TLSHandshakeTimeout tr = t"
      using NewTransport_timeouts [of e ?po pt tr] by simp_all
    show ?thesis
    proof (cases "NewRequestWithContext e ''HEAD'' (URL_String e (u\<lparr>Scheme := proto\<rparr>))")
      case (Some err)
      with x Inr assms show ?thesis
        by (simp add: probeProtocolWithTimeout_def Let_def constructURL_def)
    next
      case None
      with x Inr assms tm show ?thesis
        by (auto simp: probeProtocolWithTimeout_def Let_def constructURL_def client_Do_def
              split: prod.splits sum.splits)
    qed
  qed
qed

section \<open>Protocol detection: the state machine\<close>

text \<open>
  C1. In auto mode (\<open>proto\<close> unset or \<open>auto\<close>) the detector first makes the attempt
  \<open>http\<close> with 3 seconds. If that attempt has no error and a status in [200, 400), it
  is the final result and the trace holds that one attempt. Otherwise the detector
  makes the attempt \<open>https\<close> with 7 seconds, in the world the first attempt left; its
  result, whatever it is, is the final result, it is not the HTTP result, and the
  trace holds exactly these two attempts.
\<close>

theorem DetectProtocol_auto:
  assumes auto: "Proto opts = '''' \<or> Proto opts = ''auto''"
      and url: "URL pt = Some u"
  shows "\<exists>r1 w1. probeProtocolWithTimeout e (Some pt) opts ''http'' (3 * Second) w
                    = Returns (r1, w1)
           \<and> Protocol r1 = ''http''
           \<and> probes w1 = probes w @ [(''http'', 3 * Second)]
           \<and> (if Error r1 = None \<and> 200 \<le> StatusCode r1 \<and> StatusCode r1 < 400
               then DetectProtocol e (Some pt) opts w = Returns ((r1, None), w1)
               else (\<exists>r2 w2. probeProtocolWithTimeout e (Some pt) opts ''https'' (7 * Second) w1
                                = Returns (r2, w2)
                        \<and> DetectProtocol e (Some pt) opts w = Returns ((r2, None), w2)
                        \<and> Protocol r2 = ''https'' \<and> r2 \<noteq> r1
                        \<and> probes w2
                            = probes w @ [(''http'', 3 * Second), (''https'', 7 * Second)]))"
proof -
  obtain r1 w1
    where p1: "probeProtocolWithTimeout e (Some pt) opts ''http'' (3 * Second) w = Returns (r1, w1)"
      and q1: "Protocol r1 = ''http''" "probes w1 = probes w @ [(''http'', 3 * Second)]"
    using probe_returns [OF url, of e opts "''http''" "3 * Second" w] by blast
  obtain r2 w2
    where p2: "probeProtocolWithTimeout e (Some pt) opts ''https'' (7 * Second) w1
                 = Returns (r2, w2)"
      and q2: "Protocol r2 = ''https''" "probes w2 = probes w1 @ [(''https'', 7 * Second)]"
    using probe_returns [OF url, of e opts "''https''" "7 * Second" w1] by blast
  have ne: "r2 \<noteq> r1" using q1 q2 by auto
  show ?thesis
    using p1 q1 p2 q2 ne auto by (auto simp: DetectProtocol_def)
qed

theorem DetectProtocol_auto_witness:
  "(\<exists>r w. DetectProtocol (example_env net_ok) (Some ip_target) default_opts world0
             = Returns ((r, None), w)
          \<and> Protocol r = ''http'' \<and> StatusCode r = 200 \<and> Error r = None
          \<and> probes w = [(''http'', 3 * Second)])
   \<and> (\<exists>r w. DetectProtocol (example_env net_http_404) (Some ip_target) default_opts world0
               = Returns ((r, None), w)
            \<and> Protocol r = ''https'' \<and> StatusCode r = 0 \<and> Error r \<noteq> None
            \<and> probes w = [(''http'', 3 * Second), (''https'', 7 * Second)])"
proof -
  have a: "Proto default_opts = '''' \<or> Proto default_opts = ''auto''"
    by (simp add: default_opts_def)
  have u: "URL ip_target
             = Some (empty_URL\<lparr>Scheme := ''http'', Host := ''192.168.1.1:8080'', Path := ''/api''\<rparr>)"
    by (simp add: ip_target_def)
  note t1 = DetectProtocol_auto [OF a u, of "example_env net_ok" world0]
  note t2 = DetectProtocol_auto [OF a u, of "example_env net_http_404" world0]
  have e1: "\<exists>r w. DetectProtocol (example_env net_ok) (Some ip_target) default_opts world0
                    = Returns ((r, None), w)
                 \<and> Protocol r = ''http'' \<and> StatusCode r = 200 \<and> Error r = None
                 \<and> probes w = [(''http'', 3 * Second)]"
    by (simp add: detect_defs example_defs)
  have e2: "\<exists>r w. DetectProtocol (example_env net_http_404) (Some ip_target) default_opts world0
                    = Returns ((r, None), w)
                 \<and> Protocol r = ''https'' \<and> StatusCode r = 0 \<and> Error r \<noteq> None
                 \<and> probes w = [(''http'', 3 * Second), (''https'', 7 * Second)]"
    by (simp add: detect_defs example_defs url_defs contains_def)
  from t1 t2 e1 e2 show ?thesis by blast
qed

text \<open>
  C2. In manual mode (\<open>proto\<close> is \<open>http\<close> or \<open>https\<close>) the detector makes exactly one
  attempt, with \<open>proto\<close> as the scheme and the request timeout of the options
  (\<open>ApplyTimeouts\<close>: the configured timeout, ten seconds when none is configured); its
  result is the final result. The request, if one is sent, is for the target's URL with
  the scheme replaced by \<open>proto\<close>, whatever scheme the URL had and whether or not it
  was explicit.
\<close>

theorem DetectProtocol_manual:
  assumes manual: "Proto opts = ''http'' \<or> Proto opts = ''https''"
      and url: "URL pt = Some u"
  shows "\<exists>r w'. DetectProtocol e (Some pt) opts w = Returns ((r, Error r), w')
           \<and> probeProtocolWithTimeout e (Some pt) opts (Proto opts) (ApplyTimeouts opts) w
               = Returns (r, w')
           \<and> Protocol r = Proto opts
           \<and> probes w' = probes w @ [(Proto opts, ApplyTimeouts opts)]
           \<and> (exchanges w' = exchanges w
               \<or> (\<exists>c. exchanges w' = exchanges w @
                          [(c, \<lparr>req_Method = ''HEAD'',
                                req_URL = URL_String e (u\<lparr>Scheme := Proto opts\<rparr>),
                                req_ctx_timeout = ApplyTimeouts opts\<rparr>)]
                      \<and> client_Timeout c = ApplyTimeouts opts
                      \<and> DialTimeout (client_Transport c) = ApplyTimeouts opts
                      \<and> TLSHandshakeTimeout (client_Transport c) = ApplyTimeouts opts))
           \<and> ApplyTimeouts opts = (if 0 < Timeout opts then Timeout opts else 10 * Second)"
proof -
  from manual have m: "Proto opts \<noteq> '''' \<and> Proto opts \<noteq> ''auto''" by auto
  obtain r w'
    where p: "probeProtocolWithTimeout e (Some pt) opts (Proto opts) (ApplyTimeouts opts) w
                = Returns (r, w')"
      and q: "Protocol r = Proto opts" "probes w' = probes w @ [(Proto opts, ApplyTimeouts opts)]"
        "exchanges w' = exchanges w
               \<or> (\<exists>c. exchanges w' = exchanges w @
                          [(c, \<lparr>req_Method = ''HEAD'',
                                req_URL = URL_String e (u\<lparr>Scheme := Proto opts\<rparr>),
                                req_ctx_timeout = ApplyTimeouts opts\<rparr>)]
                      \<and> client_Timeout c = ApplyTimeouts opts
                      \<and> DialTimeout (client_Transport c) = ApplyTimeouts opts
                      \<and> TLSHandshakeTimeout (client_Transport c) = ApplyTimeouts opts)"
    using probe_returns [OF url, of e opts "Proto opts" "ApplyTimeouts opts" w] by blast
  have d: "DetectProtocol e (Some pt) opts w = Returns ((r, Error r), w')"
    using m p by (simp add: DetectProtocol_def probeProtocol_def)
  have t: "ApplyTimeouts opts = (if 0 < Timeout opts then Timeout opts else 10 * Second)"
    by (simp add: ApplyTimeouts_def)
  from d p q t show ?thesis by blast
qed

theorem DetectProtocol_manual_witness:
  "\<exists>r c. DetectProtocol (example_env net_http_404) (Some https_target)
            (default_opts\<lparr>Proto := ''http'', Timeout := 2 * Second\<rparr>) world0
          = Returns ((r, None),
              \<lparr>exchanges = [(c, \<lparr>req_Method = ''HEAD'', req_URL = ''http://example.com/'',
                                  req_ctx_timeout = 2 * Second\<rparr>)],
               open_bodies = [0],
               probes = [(''http'', 2 * Second)]\<rparr>)
        \<and> Protocol r = ''http'' \<and> StatusCode r = 404 \<and> Error r = None
        \<and> client_Timeout c = 2 * Second"
proof -
  let ?o = "default_opts\<lparr>Proto := ''http'', Timeout := 2 * Second\<rparr>"
  have m: "Proto ?o = ''http'' \<or> Proto ?o = ''https''" by simp
  have u: "URL https_target
             = Some (empty_URL\<lparr>Scheme := ''https'', Host := ''example.com'', Path := ''/''\<rparr>)"
    by (simp add: https_target_def)
  note t = DetectProtocol_manual [OF m u, of "example_env net_http_404" world0]
  have ev: "\<exists>r c. DetectProtocol (example_env net_http_404) (Some https_target) ?o world0
          = Returns ((r, None),
              \<lparr>exchanges = [(c, \<lparr>req_Method = ''HEAD'', req_URL = ''http://example.com/'',
                                  req_ctx_timeout = 2 * Second\<rparr>)],
               open_bodies = [0],
               probes = [(''http'', 2 * Second)]\<rparr>)
        \<and> Protocol r = ''http'' \<and> StatusCode r = 404 \<and> Error r = None
        \<and> client_Timeout c = 2 * Second"
    by (simp add: detect_defs example_defs url_defs)
  from t ev show ?thesis by blast
qed

text \<open>
  C10. For a target with a URL the detector always returns. In auto mode the Go error
  it returns is nil, also when both attempts failed and the failure stands in the
  result's \<open>Error\<close>; in manual mode the Go error is the result's \<open>Error\<close>.
\<close>

theorem DetectProtocol_go_error:
  assumes url: "URL pt = Some u"
  shows "(if Proto opts \<noteq> '''' \<and> Proto opts \<noteq> ''auto''
          then \<exists>r w'. DetectProtocol e (Some pt) opts w = Returns ((r, Error r), w')
          else \<exists>r w'. DetectProtocol e (Some pt) opts w = Returns ((r, None), w'))"
proof (cases "Proto opts \<noteq> '''' \<and> Proto opts \<noteq> ''auto''")
  case True
  obtain r w'
    where "probeProtocolWithTimeout e (Some pt) opts (Proto opts) (ApplyTimeouts opts) w
             = Returns (r, w')"
    using probe_returns [OF url, of e opts "Proto opts" "ApplyTimeouts opts" w] by blast
  with True show ?thesis
    by (simp add: DetectProtocol_def probeProtocol_def)
next
  case False
  obtain r1 w1
    where p1: "probeProtocolWithTimeout e (Some pt) opts ''http'' (3 * Second) w = Returns (r1, w1)"
    using probe_returns [OF url, of e opts "''http''" "3 * Second" w] by blast
  obtain r2 w2
    where p2: "probeProtocolWithTimeout e (Some pt) opts ''https'' (7 * Second) w1
                 = Returns (r2, w2)"
    using probe_returns [OF url, of e opts "''https''" "7 * Second" w1] by blast
  from False p1 p2 show ?thesis
    by (auto simp: DetectProtocol_def)
qed

theorem DetectProtocol_go_error_witness:
  "(\<exists>r w. DetectProtocol (example_env net_down) (Some ip_target) default_opts world0
            = Returns ((r, None), w)
          \<and> Error r = Some (ConnectionError ''192.168.1.1'' ''8080'' connection_refused))
   \<and> (\<exists>r w. DetectProtocol (example_env net_down) (Some ip_target)
               (default_opts\<lparr>Proto := ''https''\<rparr>) world0
            = Returns ((r, Some (ConnectionError ''192.168.1.1'' ''8080'' connection_refused)), w)
          \<and> Error r = Some (ConnectionError ''192.168.1.1'' ''8080'' connection_refused))"
proof -
  have u: "URL ip_target
             = Some (empty_URL\<lparr>Scheme := ''http'', Host := ''192.168.1.1:8080'', Path := ''/api''\<rparr>)"
    by (simp add: ip_target_def)
  note t1 = DetectProtocol_go_error [OF u, of default_opts "example_env net_down" world0]
  note t2 = DetectProtocol_go_error
              [OF u, of "default_opts\<lparr>Proto := ''https''\<rparr>" "example_env net_down" world0]
  have e1: "\<exists>r w. DetectProtocol (example_env net_down) (Some ip_target) default_opts world0
            = Returns ((r, None), w)
          \<and> Error r = Some (ConnectionError ''192.168.1.1'' ''8080'' connection_refused)"
    by (simp add: detect_defs example_defs url_defs contains_def)
  have e2: "\<exists>r w. DetectProtocol (example_env net_down) (Some ip_target)
               (default_opts\<lparr>Proto := ''https''\<rparr>) world0
            = Returns ((r, Some (ConnectionError ''192.168.1.1'' ''8080'' connection_refused)), w)
          \<and> Error r = Some (ConnectionError ''192.168.1.1'' ''8080'' connection_refused)"
    by (simp add: detect_defs example_defs url_defs contains_def)
  from t1 t2 e1 e2 show ?thesis by blast
qed

section \<open>Protocol detection: explicit schemes\<close>

text \<open>
  C3. The claim is that a target whose scheme was explicit is never probed. The
  detector does not read \<open>HasExplicitProto\<close>: for the target parsed from
  \<open>https://example.com/\<close>, under the default options (\<open>proto = auto\<close>) and a network
  that answers, it makes the \<open>http\<close> attempt with 3 seconds, sends a \<open>HEAD\<close> request to
  \<open>http://example.com/\<close> and settles on \<open>http\<close>.
\<close>

theorem explicit_scheme_is_probed:
  "ParseTarget no_IP ''https://example.com/'' = Inr https_target
   \<and> HasExplicitProto https_target
   \<and> DetectProtocol (example_env net_ok) (Some https_target) default_opts world0
       = Returns
           ((\<lparr>Protocol = ''http'', StatusCode = 200, Duration = 5000000,
              Response = Some \<lparr>resp_StatusCode = 200, Body = 0\<rparr>, Error = None\<rparr>, None),
            \<lparr>exchanges =
               [(\<lparr>client_Transport =
                    \<lparr>DialTimeout = 3 * Second, TLSHandshakeTimeout = 3 * Second,
                     TLSClientConfig =
                       \<lparr>InsecureSkipVerify = False, RootCAs = None, Certificates = []\<rparr>\<rparr>,
                  client_Timeout = 3 * Second\<rparr>,
                 \<lparr>req_Method = ''HEAD'', req_URL = ''http://example.com/'',
                  req_ctx_timeout = 3 * Second\<rparr>)],
             open_bodies = [0], probes = [(''http'', 3 * Second)]\<rparr>)"
proof (intro conjI)
  show "ParseTarget no_IP ''https://example.com/'' = Inr https_target"
    by (simp add: parse_defs url_defs example_defs)
  show "HasExplicitProto https_target"
    by (simp add: https_target_def)
  show "DetectProtocol (example_env net_ok) (Some https_target) default_opts world0
       = Returns
           ((\<lparr>Protocol = ''http'', StatusCode = 200, Duration = 5000000,
              Response = Some \<lparr>resp_StatusCode = 200, Body = 0\<rparr>, Error = None\<rparr>, None),
            \<lparr>exchanges =
               [(\<lparr>client_Transport =
                    \<lparr>DialTimeout = 3 * Second, TLSHandshakeTimeout = 3 * Second,
                     TLSClientConfig =
                       \<lparr>InsecureSkipVerify = False, RootCAs = None, Certificates = []\<rparr>\<rparr>,
                  client_Timeout = 3 * Second\<rparr>,
                 \<lparr>req_Method = ''HEAD'', req_URL = ''http://example.com/'',
                  req_ctx_timeout = 3 * Second\<rparr>)],
             open_bodies = [0], probes = [(''http'', 3 * Second)]\<rparr>)"
    by (simp add: detect_defs example_defs)
qed

section \<open>Classification of transport errors\<close>

text \<open>What \<open>contains\<close> computes: whether the second string is no longer than the first.\<close>

lemma contains_length: "contains s substr = (length substr \<le> length s)"
  by (auto simp: contains_def)

text \<open>
  C4. The claim is that a non-timeout error whose text holds \<open>no such host\<close> and not
  \<open>connection refused\<close> is classified as no-route, and one whose text holds
  \<open>certificate\<close> and neither of the other two as a TLS failure. \<open>mapProbeError\<close>
  classifies both errors below as connection errors: their texts are at least as long
  as \<open>connection refused\<close>, which is all that \<open>contains\<close> tests.
\<close>

theorem mapProbeError_misclassifies:
  "strings_Contains (err_text no_such_host) ''no such host''
   \<and> \<not> strings_Contains (err_text no_such_host) ''connection refused''
   \<and> err_Timeout no_such_host \<noteq> Some True
   \<and> mapProbeError (Some no_such_host) (Some https_target)
       = Some (ConnectionError ''example.com'' '''' no_such_host)
   \<and> strings_Contains (err_text unknown_authority) ''certificate''
   \<and> \<not> strings_Contains (err_text unknown_authority) ''connection refused''
   \<and> \<not> strings_Contains (err_text unknown_authority) ''no such host''
   \<and> err_Timeout unknown_authority \<noteq> Some True
   \<and> mapProbeError (Some unknown_authority) (Some https_target)
       = Some (ConnectionError ''example.com'' '''' unknown_authority)"
  by (simp add: no_such_host_def unknown_authority_def strings_Contains_def HasPrefix_def
        mapProbeError_def contains_def https_target_def empty_URL_def url_defs)

section \<open>Response bodies\<close>

text \<open>
  C9. The claim is that every probe attempt releases its response body. No path of the
  detector closes one: a successful attempt returns with its body open; an invocation
  whose HTTP probe is answered with 404 and whose HTTPS probe is refused ends with the
  HTTP probe's body open; and an invocation that succeeds closes the body of the real
  response (handle 1) and ends with the probe's body (handle 0) open.
\<close>

theorem probe_bodies_stay_open:
  "(\<exists>r w. probeProtocolWithTimeout (example_env net_ok) (Some ip_target) default_opts ''http''
             (3 * Second) world0 = Returns (r, w)
          \<and> Response r = Some \<lparr>resp_StatusCode = 200, Body = 0\<rparr> \<and> open_bodies w = [0])
   \<and> (\<exists>w. run no_IP (example_env net_http_404) (default_opts\<lparr>Target := ''example.com''\<rparr>) world0
            = Returns (ExitConnectFailed, w)
          \<and> length (exchanges w) = 2 \<and> open_bodies w = [0])
   \<and> (\<exists>w. run no_IP (example_env net_ok) (default_opts\<lparr>Target := ''example.com''\<rparr>) world0
            = Returns (ExitSuccess, w)
          \<and> length (exchanges w) = 2 \<and> open_bodies w = [0])"
proof (intro conjI)
  show "\<exists>r w. probeProtocolWithTimeout (example_env net_ok) (Some ip_target) default_opts ''http''
             (3 * Second) world0 = Returns (r, w)
          \<and> Response r = Some \<lparr>resp_StatusCode = 200, Body = 0\<rparr> \<and> open_bodies w = [0]"
    by (simp add: detect_defs example_defs)
  have p: "ParseTarget no_IP ''example.com''
     = Inr \<lparr>URL = Some (empty_URL\<lparr>Scheme := ''http'', Host := ''example.com'', Path := ''/''\<rparr>),
            IsIP = False, HasExplicitProto = False, OriginalInput = ''example.com''\<rparr>"
    by (simp add: parse_defs url_defs example_defs)
  show "\<exists>w. run no_IP (example_env net_http_404) (default_opts\<lparr>Target := ''example.com''\<rparr>) world0
            = Returns (ExitConnectFailed, w)
          \<and> length (exchanges w) = 2 \<and> open_bodies w = [0]"
    by (simp add: run_def p)
       (simp add: detect_defs example_defs url_defs contains_def ExitConnectFailed_def)
  show "\<exists>w. run no_IP (example_env net_ok) (default_opts\<lparr>Target := ''example.com''\<rparr>) world0
            = Returns (ExitSuccess, w)
          \<and> length (exchanges w) = 2 \<and> open_bodies w = [0]"
    by (simp add: run_def p)
       (simp add: detect_defs example_defs BuildRequest_def Body_Close_def ExitSuccess_def)
qed

section \<open>Target normalisation: the path\<close>

text \<open>
  The branch of \<open>ParseTarget\<close> for inputs without a scheme appends the default path:
  a plain host name alone becomes \<open>http://host/\<close>, with the path \<open>/\<close>.
\<close>

lemma not_host_char [simp]:
  "\<not> host_char CHR ''/''" "\<not> host_char CHR '':''" "\<not> host_char CHR ''#''"
  "\<not> host_char CHR ''?''" "\<not> host_char CHR ''@''" "\<not> host_char CHR ''%''"
  "\<not> host_char CHR ''+''" "\<not> host_char CHR ''[''" "\<not> host_char CHR '']''"
  by (simp_all add: host_char_def is_letter_def is_lower_def is_upper_def is_digit_def byte_def)

lemma host_char_facts:
  assumes "host_char c"
  shows "c \<noteq> CHR ''%''" "c \<noteq> CHR ''+''"
        "\<not> shouldEscape_Host c" "\<not> byte c < 32" "byte c \<noteq> 127"
  using assms
  by (auto simp: host_char_def shouldEscape_Host_def is_letter_def is_lower_def is_upper_def
        is_digit_def byte_def)

lemma host_chars_exclude:
  assumes "list_all host_char s" "\<not> host_char c"
  shows "c \<notin> set s" "\<forall>x \<in> set s. x \<noteq> c"
  using assms by (auto simp: list_all_iff)

lemma unescape_host:
  "list_all host_char s \<Longrightarrow> unescape s encodeHost = Inr s"
  by (induction s) (auto simp: host_char_facts)

lemma takeWhile_all: "\<forall>x \<in> set s. P x \<Longrightarrow> takeWhile P (s @ t) = s @ takeWhile P t"
  by (simp add: takeWhile_append2)

lemma dropWhile_all: "\<forall>x \<in> set s. P x \<Longrightarrow> dropWhile P (s @ t) = dropWhile P t"
  by (simp add: dropWhile_append2)

lemma getScheme_http: "getScheme (''http:'' @ rest) = Inr (''http'', rest)"
  by (simp add: getScheme_def is_letter_def is_lower_def is_upper_def is_digit_def byte_def)

lemma parseAuthority_host:
  assumes "list_all host_char s"
  shows "parseAuthority s = Inr (None, s)"
proof -
  have n: "CHR ''@'' \<notin> set s" "CHR '':'' \<notin> set s"
    using host_chars_exclude [OF assms] by simp_all
  have "\<not> HasPrefix s ''[''"
    using assms by (cases s) (auto simp: HasPrefix_def)
  with n show ?thesis
    using unescape_host [OF assms]
    by (simp add: parseAuthority_def parseHost_def LastIndexByte_def)
qed

lemma url_Parse_plain_host:
  assumes h: "list_all host_char s"
  shows "url_Parse (''http://'' @ s @ ''/'')
           = Inr (empty_URL\<lparr>Scheme := ''http'', Host := s, Path := ''/''\<rparr>)"
proof -
  let ?raw = "''http://'' @ s @ ''/''"
  have a: "\<forall>c \<in> set s. c \<noteq> CHR ''#''" "\<forall>c \<in> set s. c \<noteq> CHR ''?''"
      "\<forall>c \<in> set s. c \<noteq> CHR ''/''"
    using host_chars_exclude(2) [OF h] by simp_all
  have a4: "\<forall>c \<in> set s. \<not> byte c < 32 \<and> byte c \<noteq> 127"
    using h by (auto simp: list_all_iff host_char_facts)
  have nq: "CHR ''?'' \<notin> set s"
    using host_chars_exclude(1) [OF h] by simp
  have cb: "Cut_before ?raw CHR ''#'' = ?raw" "Cut_after ?raw CHR ''#'' = ''''"
    using a(1) by (simp_all add: Cut_before_def Cut_after_def takeWhile_all dropWhile_all)
  have ctl: "\<not> stringContainsCTLByte ?raw"
    using a4 by (auto simp: stringContainsCTLByte_def byte_def)
  have star: "?raw \<noteq> ''*''" by simp
  have g: "getScheme ?raw = Inr (''http'', ''//'' @ s @ ''/'')"
    using getScheme_http [of "''//'' @ s @ ''/''"] by simp
  let ?rest = "''//'' @ s @ ''/''"
  have q: "count_list ?rest CHR ''?'' = 0" "Cut_before ?rest CHR ''?'' = ?rest"
          "Cut_after ?rest CHR ''?'' = ''''" "\<not> HasSuffix ?rest ''?''"
    using a(2) nq
    by (simp_all add: Cut_before_def Cut_after_def takeWhile_all dropWhile_all HasSuffix_def
          count_list_0_iff)
  have au: "Cut_before (s @ ''/'') CHR ''/'' = s"
           "dropWhile (\<lambda>x. x \<noteq> CHR ''/'') (s @ ''/'') = ''/''"
    using a(3) by (simp_all add: Cut_before_def takeWhile_all dropWhile_all)
  have pr: "parse_rest (empty_URL\<lparr>Scheme := ToLower ''http''\<rparr>) ?rest
              = Inr (empty_URL\<lparr>Scheme := ''http'', Host := s, Path := ''/''\<rparr>)"
    using q au parseAuthority_host [OF h]
    by (simp add: parse_rest_def Let_def HasPrefix_def empty_URL_def ToLower_def lower_byte_def
          is_upper_def byte_def)
  show ?thesis
    using cb ctl star g pr by (simp add: url_Parse_def parse_def Let_def)
qed

lemma ParseTarget_plain_host:
  assumes h: "list_all host_char s" and ne: "s \<noteq> ''''"
  shows "ParseTarget ParseIP s
           = Inr \<lparr>URL = Some (empty_URL\<lparr>Scheme := ''http'', Host := s, Path := ''/''\<rparr>),
                  IsIP = isIPAddress ParseIP s, HasExplicitProto = False, OriginalInput = s\<rparr>"
proof -
  have a: "CHR ''/'' \<notin> set s" "CHR '':'' \<notin> set s"
    using host_chars_exclude(1) [OF h] by simp_all
  have nc: "\<not> strings_Contains s ''://''"
    using a(2)
  proof (induction s)
    case Nil
    then show ?case by (simp add: strings_Contains_def)
  next
    case (Cons c cs)
    then show ?case by (auto simp: strings_Contains_def HasPrefix_def split: option.splits)
  qed
  have cb: "Cut_before s CHR ''/'' = s"
    using a(1) by (auto simp: Cut_before_def)
  have sp: "net_SplitHostPort s = None"
    using a(2) by (simp add: net_SplitHostPort_def LastIndexByte_def)
  show ?thesis
    using ne nc cb sp a(1) url_Parse_plain_host [OF h]
    by (simp add: ParseTarget_def Let_def)
qed

text \<open>
  C6. The claim is that the path of an accepted target is never empty and is \<open>/\<close>
  when the input names none. For \<open>http://example.com\<close> the parser returns the URL as
  \<open>url.Parse\<close> gives it, with the empty path; for the same host without a scheme it
  appends \<open>/\<close>.
\<close>

theorem explicit_scheme_empty_path:
  "ParseTarget no_IP ''http://example.com''
     = Inr \<lparr>URL = Some (empty_URL\<lparr>Scheme := ''http'', Host := ''example.com'', Path := ''''\<rparr>),
            IsIP = False, HasExplicitProto = True, OriginalInput = ''http://example.com''\<rparr>
   \<and> ParseTarget no_IP ''example.com''
     = Inr \<lparr>URL = Some (empty_URL\<lparr>Scheme := ''http'', Host := ''example.com'', Path := ''/''\<rparr>),
            IsIP = False, HasExplicitProto = False, OriginalInput = ''example.com''\<rparr>"
proof (rule conjI)
  show "ParseTarget no_IP ''http://example.com''
     = Inr \<lparr>URL = Some (empty_URL\<lparr>Scheme := ''http'', Host := ''example.com'', Path := ''''\<rparr>),
            IsIP = False, HasExplicitProto = True, OriginalInput = ''http://example.com''\<rparr>"
    by (simp add: parse_defs url_defs example_defs)
next
  have h: "list_all host_char ''example.com''"
    by (simp add: host_char_def is_letter_def is_lower_def is_upper_def byte_def)
  from ParseTarget_plain_host [OF h, of no_IP]
  show "ParseTarget no_IP ''example.com''
     = Inr \<lparr>URL = Some (empty_URL\<lparr>Scheme := ''http'', Host := ''example.com'', Path := ''/''\<rparr>),
            IsIP = False, HasExplicitProto = False, OriginalInput = ''example.com''\<rparr>"
    by (simp add: isIPAddress_def no_IP_def)
qed

section \<open>Target normalisation: the scheme\<close>





text \<open>\<open>getScheme\<close> returns a non-empty scheme exactly for a scheme name followed by a colon.\<close>

lemma colon_not_scheme_char [simp]:
  "\<not> is_letter CHR '':''" "\<not> is_digit CHR '':''" "\<not> scheme_char CHR '':''"
  "\<not> scheme_char CHR ''#''"
  by (simp_all add: scheme_char_def is_letter_def is_lower_def is_upper_def is_digit_def byte_def)












lemma ToLower_Nil_iff [simp]: "ToLower s = [] \<longleftrightarrow> s = []"
  by (simp add: ToLower_def)





end
